theory Spec2Isabelle
  imports Complex_Main "HOL-Library.AList" "HOL-Library.Sublist"
begin

section \<open>Numbers, objects and errors of the JavaScript source\<close>

text \<open>
  JavaScript numbers are modelled by exact reals: every constant of the source is a decimal
  literal, and every stored price is the result of \<^verbatim>\<open>Math.round\<close>, hence an \<open>int\<close>.
  The doubles of the source differ from the exact value by a rounding error, which changes a
  rounded price only where the exact value is that close to a tie (105500 times 1.015 is
  107082.5); the prices computed below are away from ties.
  \<^verbatim>\<open>Math.round(x)\<close> is the integer nearest to \<open>x\<close>, a tie going up.
  Each call of \<^verbatim>\<open>Math.random()\<close> is an explicit argument (a draw in \<open>[0, 1)\<close>), and each
  \<^verbatim>\<open>new Date()\<close> an explicit time stamp.
\<close>

definition Math_round :: "real \<Rightarrow> int" where
  "Math_round x = \<lfloor>x + 1 / 2\<rfloor>"

definition unit_draw :: "real \<Rightarrow> bool" where
  "unit_draw r = (0 \<le> r \<and> r < 1)"

datatype js_error = TypeError

text \<open>
  A plain object (\<^verbatim>\<open>{}\<close>) is an association list in insertion order. Reading a property
  \<^verbatim>\<open>obj[key]\<close> first looks at the object's own properties and then at those every plain
  object inherits from \<^verbatim>\<open>Object.prototype\<close>, which are functions or objects and so truthy.
\<close>

datatype 'a js_prop = Own 'a | Inherited | Undefined

definition Object_prototype :: "string list" where
  "Object_prototype =
     [''constructor'', ''__defineGetter__'', ''__defineSetter__'', ''hasOwnProperty'',
      ''__lookupGetter__'', ''__lookupSetter__'', ''isPrototypeOf'', ''propertyIsEnumerable'',
      ''toString'', ''valueOf'', ''__proto__'', ''toLocaleString'']"

definition js_get :: "(string \<times> 'a) list \<Rightarrow> string \<Rightarrow> 'a js_prop" where
  "js_get obj key =
     (case map_of obj key of
        Some v \<Rightarrow> Own v
      | None \<Rightarrow> if key \<in> set Object_prototype then Inherited else Undefined)"

definition toUpperCase :: "string \<Rightarrow> string" where
  "toUpperCase s =
     map (\<lambda>c. let n = (of_char c :: nat) in if 97 \<le> n \<and> n \<le> 122 then char_of (n - 32) else c) s"

definition toLowerCase :: "string \<Rightarrow> string" where
  "toLowerCase s =
     map (\<lambda>c. let n = (of_char c :: nat) in if 65 \<le> n \<and> n \<le> 90 then char_of (n + 32) else c) s"

definition includes_str :: "string \<Rightarrow> string \<Rightarrow> bool" where
  "includes_str s sub = sublist sub s"


section \<open>server.js: the city table and the price store\<close>

record city =
  city_id :: string
  city_name :: string
  city_state :: string

definition METRO_CITIES :: "city list" where
  "METRO_CITIES =
     [\<lparr>city_id = ''mumbai'', city_name = ''Mumbai'', city_state = ''Maharashtra''\<rparr>,
      \<lparr>city_id = ''delhi'', city_name = ''Delhi'', city_state = ''Delhi''\<rparr>,
      \<lparr>city_id = ''bangalore'', city_name = ''Bangalore'', city_state = ''Karnataka''\<rparr>,
      \<lparr>city_id = ''kolkata'', city_name = ''Kolkata'', city_state = ''West Bengal''\<rparr>,
      \<lparr>city_id = ''chennai'', city_name = ''Chennai'', city_state = ''Tamil Nadu''\<rparr>,
      \<lparr>city_id = ''hyderabad'', city_name = ''Hyderabad'', city_state = ''Telangana''\<rparr>,
      \<lparr>city_id = ''pune'', city_name = ''Pune'', city_state = ''Maharashtra''\<rparr>,
      \<lparr>city_id = ''ahmedabad'', city_name = ''Ahmedabad'', city_state = ''Gujarat''\<rparr>,
      \<lparr>city_id = ''jaipur'', city_name = ''Jaipur'', city_state = ''Rajasthan''\<rparr>,
      \<lparr>city_id = ''surat'', city_name = ''Surat'', city_state = ''Gujarat''\<rparr>,
      \<lparr>city_id = ''lucknow'', city_name = ''Lucknow'', city_state = ''Uttar Pradesh''\<rparr>,
      \<lparr>city_id = ''kanpur'', city_name = ''Kanpur'', city_state = ''Uttar Pradesh''\<rparr>,
      \<lparr>city_id = ''nagpur'', city_name = ''Nagpur'', city_state = ''Maharashtra''\<rparr>,
      \<lparr>city_id = ''indore'', city_name = ''Indore'', city_state = ''Madhya Pradesh''\<rparr>,
      \<lparr>city_id = ''thane'', city_name = ''Thane'', city_state = ''Maharashtra''\<rparr>,
      \<lparr>city_id = ''bhopal'', city_name = ''Bhopal'', city_state = ''Madhya Pradesh''\<rparr>,
      \<lparr>city_id = ''visakhapatnam'', city_name = ''Visakhapatnam'', city_state = ''Andhra Pradesh''\<rparr>,
      \<lparr>city_id = ''pimpri'', city_name = ''Pimpri-Chinchwad'', city_state = ''Maharashtra''\<rparr>,
      \<lparr>city_id = ''patna'', city_name = ''Patna'', city_state = ''Bihar''\<rparr>,
      \<lparr>city_id = ''vadodara'', city_name = ''Vadodara'', city_state = ''Gujarat''\<rparr>]"

text \<open>The purity keys \<^verbatim>\<open>'24k'\<close>, \<^verbatim>\<open>'22k'\<close>, \<^verbatim>\<open>'18k'\<close> and \<^verbatim>\<open>'999'\<close>, \<^verbatim>\<open>'925'\<close> are record fields.\<close>

record gold_prices =
  k24 :: int
  k22 :: int
  k18 :: int

record silver_prices =
  s999 :: int
  s925 :: int

record base_prices =
  base_gold :: gold_prices
  base_silver :: silver_prices

definition BASE_PRICES :: base_prices where
  "BASE_PRICES =
     \<lparr>base_gold = \<lparr>k24 = 105500, k22 = 96700, k18 = 79100\<rparr>,
      base_silver = \<lparr>s999 = 124000, s925 = 114600\<rparr>\<rparr>"

datatype trend = Up | Down | Stable

text \<open>A quote of the live source, as \<^verbatim>\<open>parseMCXData\<close> and \<^verbatim>\<open>getFallbackData\<close> build it.\<close>

record quote =
  symbol :: string
  ltp :: real
  change :: real
  changePercent :: real
  high :: real
  low :: real
  open_price :: real
  close_price :: real
  volume :: int
  timestamp :: nat

record mcx_data =
  mcx_gold :: "quote option"
  mcx_silver :: "quote option"

record price_bundle =
  cityInfo :: city
  gold :: gold_prices
  silver :: silver_prices
  lastUpdated :: nat
  trend_gold :: trend
  trend_silver :: trend
  mcxData :: "mcx_data option"

type_synonym price_table = "(string \<times> price_bundle) list"

text \<open>
  The process state of server.js: the three module variables, the pending
  \<^verbatim>\<open>setTimeout\<close> delays (milliseconds) and the log of \<^verbatim>\<open>io.emit('priceUpdate', ...)\<close>.
\<close>

record server =
  currentPrices :: price_table
  useMCXData :: bool
  basePrices :: base_prices
  timers :: "nat list"
  emitted :: "price_table list"


section \<open>server.js: synthetic generation\<close>

definition cityVariations :: "(string \<times> real) list" where
  "cityVariations =
     [(''mumbai'', 1.02), (''delhi'', 1.01), (''bangalore'', 1.015), (''kolkata'', 1.025),
      (''chennai'', 1.01), (''hyderabad'', 1.005), (''pune'', 1.018), (''ahmedabad'', 0.995),
      (''jaipur'', 0.98), (''surat'', 0.99)]"

text \<open>
  \<^verbatim>\<open>cityVariations[cityId] || 1.0\<close>. The callers pass identifiers of \<open>METRO_CITIES\<close> only, none
  of which is a property of \<^verbatim>\<open>Object.prototype\<close>.
\<close>

definition variation :: "string \<Rightarrow> real" where
  "variation cityId =
     (case map_of cityVariations cityId of
        Some v \<Rightarrow> if v = 0 then 1.0 else v
      | None \<Rightarrow> 1.0)"

definition generateCityPrice :: "int \<Rightarrow> string \<Rightarrow> real \<Rightarrow> int" where
  "generateCityPrice basePrice cityId rnd =
     (let randomVariation = 0.995 + rnd * 0.01
      in Math_round (of_int basePrice * variation cityId * randomVariation))"

definition getRandomTrend :: "real \<Rightarrow> trend" where
  "getRandomTrend rnd =
     (let i = \<lfloor>rnd * 3\<rfloor> in if i = 0 then Up else if i = 1 then Down else Stable)"

text \<open>The seven draws one city takes in \<^verbatim>\<open>initializePrices\<close> or \<^verbatim>\<open>updatePricesSimulated\<close>.\<close>

record city_draws =
  d_24k :: real
  d_22k :: real
  d_18k :: real
  d_999 :: real
  d_925 :: real
  d_trend_gold :: real
  d_trend_silver :: real

definition draws_ok :: "city_draws \<Rightarrow> bool" where
  "draws_ok d =
     (unit_draw (d_24k d) \<and> unit_draw (d_22k d) \<and> unit_draw (d_18k d) \<and> unit_draw (d_999 d)
      \<and> unit_draw (d_925 d) \<and> unit_draw (d_trend_gold d) \<and> unit_draw (d_trend_silver d))"

definition initCity :: "base_prices \<Rightarrow> city_draws \<Rightarrow> nat \<Rightarrow> city \<Rightarrow> price_bundle" where
  "initCity bp d now c =
     \<lparr>cityInfo = c,
      gold = \<lparr>k24 = generateCityPrice (k24 (base_gold bp)) (city_id c) (d_24k d),
              k22 = generateCityPrice (k22 (base_gold bp)) (city_id c) (d_22k d),
              k18 = generateCityPrice (k18 (base_gold bp)) (city_id c) (d_18k d)\<rparr>,
      silver = \<lparr>s999 = generateCityPrice (s999 (base_silver bp)) (city_id c) (d_999 d),
                s925 = generateCityPrice (s925 (base_silver bp)) (city_id c) (d_925 d)\<rparr>,
      lastUpdated = now,
      trend_gold = getRandomTrend (d_trend_gold d),
      trend_silver = getRandomTrend (d_trend_silver d),
      mcxData = None\<rparr>"

definition initializePrices ::
  "base_prices \<Rightarrow> (string \<Rightarrow> city_draws) \<Rightarrow> nat \<Rightarrow> price_table \<Rightarrow> price_table" where
  "initializePrices bp draws now cp =
     fold (\<lambda>c. AList.update (city_id c) (initCity bp (draws (city_id c)) now c)) METRO_CITIES cp"

text \<open>One city's step of the random walk: each price is re-rounded from the stored one.\<close>

definition simulateCity :: "city_draws \<Rightarrow> nat \<Rightarrow> price_bundle \<Rightarrow> price_bundle" where
  "simulateCity d now b =
     b\<lparr>gold := \<lparr>k24 = Math_round (of_int (k24 (gold b)) * (1 + (d_24k d - 0.5) * 0.004)),
               k22 = Math_round (of_int (k22 (gold b)) * (1 + (d_22k d - 0.5) * 0.004)),
               k18 = Math_round (of_int (k18 (gold b)) * (1 + (d_18k d - 0.5) * 0.004))\<rparr>,
       silver := \<lparr>s999 = Math_round (of_int (s999 (silver b)) * (1 + (d_999 d - 0.5) * 0.006)),
                 s925 = Math_round (of_int (s925 (silver b)) * (1 + (d_925 d - 0.5) * 0.006))\<rparr>,
       trend_gold := getRandomTrend (d_trend_gold d),
       trend_silver := getRandomTrend (d_trend_silver d),
       lastUpdated := now\<rparr>"

text \<open>
  The \<^verbatim>\<open>forEach\<close> of \<^verbatim>\<open>updatePricesSimulated\<close>. A city missing from \<^verbatim>\<open>currentPrices\<close> makes
  \<^verbatim>\<open>cityPrices.gold\<close> throw; \<open>Inl\<close> is that uncaught exception.
\<close>

fun walkCities ::
  "(string \<Rightarrow> city_draws) \<Rightarrow> nat \<Rightarrow> city list \<Rightarrow> price_table \<Rightarrow> js_error + price_table" where
  "walkCities draws now [] cp = Inr cp"
| "walkCities draws now (c # cs) cp =
     (case map_of cp (city_id c) of
        None \<Rightarrow> Inl TypeError
      | Some b \<Rightarrow>
          walkCities draws now cs
            (AList.update (city_id c) (simulateCity (draws (city_id c)) now b) cp))"

definition updatePricesSimulated ::
  "(string \<Rightarrow> city_draws) \<Rightarrow> nat \<Rightarrow> server \<Rightarrow> js_error + server" where
  "updatePricesSimulated draws now st =
     (case walkCities draws now METRO_CITIES (currentPrices st) of
        Inl e \<Rightarrow> Inl e
      | Inr cp \<Rightarrow> Inr (st\<lparr>currentPrices := cp, emitted := emitted st @ [cp]\<rparr>))"

text \<open>The five-minute cron job: one market-wide shock of the base table, then regeneration.\<close>

definition marketUpdate :: "real \<Rightarrow> (string \<Rightarrow> city_draws) \<Rightarrow> nat \<Rightarrow> server \<Rightarrow> server" where
  "marketUpdate rnd draws now st =
     (let marketChange = (rnd - 0.5) * 0.02;
          shock = (\<lambda>p. Math_round (of_int p * (1 + marketChange)));
          g = base_gold (basePrices st);
          s = base_silver (basePrices st);
          bp = \<lparr>base_gold = \<lparr>k24 = shock (k24 g), k22 = shock (k22 g), k18 = shock (k18 g)\<rparr>,
                base_silver = \<lparr>s999 = shock (s999 s), s925 = shock (s925 s)\<rparr>\<rparr>
      in st\<lparr>basePrices := bp, currentPrices := initializePrices bp draws now (currentPrices st)\<rparr>)"


section \<open>mcx-api.js: the live source\<close>

definition cityMultipliers :: "(string \<times> real) list" where
  "cityMultipliers =
     [(''mumbai'', 1.025), (''delhi'', 1.015), (''bangalore'', 1.020), (''kolkata'', 1.030),
      (''chennai'', 1.015), (''hyderabad'', 1.010), (''pune'', 1.022), (''ahmedabad'', 0.995),
      (''jaipur'', 0.985), (''surat'', 0.990), (''lucknow'', 1.005), (''kanpur'', 1.000),
      (''nagpur'', 1.002), (''indore'', 0.998), (''thane'', 1.020), (''bhopal'', 1.005),
      (''visakhapatnam'', 1.012), (''pimpri'', 1.018), (''patna'', 1.008), (''vadodara'', 0.995)]"

text \<open>\<^verbatim>\<open>cityMultipliers[cityId] || 1.000\<close>, for the same callers.\<close>

definition getCityMultiplier :: "string \<Rightarrow> real" where
  "getCityMultiplier cityId =
     (case map_of cityMultipliers cityId of
        Some v \<Rightarrow> if v = 0 then 1.000 else v
      | None \<Rightarrow> 1.000)"

definition getFallbackGoldPrices :: "string \<Rightarrow> gold_prices" where
  "getFallbackGoldPrices cityId =
     (let basePrice = 105200; cityMultiplier = getCityMultiplier cityId
      in \<lparr>k24 = Math_round (basePrice * cityMultiplier),
          k22 = Math_round (basePrice * 0.917 * cityMultiplier),
          k18 = Math_round (basePrice * 0.750 * cityMultiplier)\<rparr>)"

definition getFallbackSilverPrices :: "string \<Rightarrow> silver_prices" where
  "getFallbackSilverPrices cityId =
     (let basePrice = 123800; cityMultiplier = getCityMultiplier cityId
      in \<lparr>s999 = Math_round (basePrice * cityMultiplier),
          s925 = Math_round (basePrice * 0.925 * cityMultiplier)\<rparr>)"

text \<open>\<^verbatim>\<open>!goldMCXData || !goldMCXData.ltp\<close>: no quote, or a quote whose \<open>ltp\<close> is \<open>0\<close>.\<close>

definition calculateGoldPrices :: "quote option \<Rightarrow> string \<Rightarrow> gold_prices" where
  "calculateGoldPrices goldMCXData cityId =
     (case goldMCXData of
        None \<Rightarrow> getFallbackGoldPrices cityId
      | Some q \<Rightarrow>
          if ltp q = 0 then getFallbackGoldPrices cityId
          else
            let mcxPrice = ltp q; cityMultiplier = getCityMultiplier cityId
            in \<lparr>k24 = Math_round (mcxPrice * (24 / 23.88) * cityMultiplier),
                k22 = Math_round (mcxPrice * (22 / 23.88) * cityMultiplier),
                k18 = Math_round (mcxPrice * (18 / 23.88) * cityMultiplier)\<rparr>)"

definition calculateSilverPrices :: "quote option \<Rightarrow> string \<Rightarrow> silver_prices" where
  "calculateSilverPrices silverMCXData cityId =
     (case silverMCXData of
        None \<Rightarrow> getFallbackSilverPrices cityId
      | Some q \<Rightarrow>
          if ltp q = 0 then getFallbackSilverPrices cityId
          else
            let mcxPrice = ltp q; cityMultiplier = getCityMultiplier cityId
            in \<lparr>s999 = Math_round (mcxPrice * cityMultiplier),
                s925 = Math_round (mcxPrice * 0.925 * cityMultiplier)\<rparr>)"

definition getTrend :: "real \<Rightarrow> trend" where
  "getTrend pct = (if pct > 0.1 then Up else if pct < - 0.1 then Down else Stable)"

definition pct_or_zero :: "quote option \<Rightarrow> real" where
  "pct_or_zero q = (case q of None \<Rightarrow> 0 | Some x \<Rightarrow> changePercent x)"

definition convertToLocationPrices :: "mcx_data \<Rightarrow> city list \<Rightarrow> nat \<Rightarrow> price_table" where
  "convertToLocationPrices m cities now =
     fold (\<lambda>c. AList.update (city_id c)
             \<lparr>cityInfo = c,
              gold = calculateGoldPrices (mcx_gold m) (city_id c),
              silver = calculateSilverPrices (mcx_silver m) (city_id c),
              lastUpdated = now,
              trend_gold = getTrend (pct_or_zero (mcx_gold m)),
              trend_silver = getTrend (pct_or_zero (mcx_silver m)),
              mcxData = Some m\<rparr>)
          cities []"

text \<open>The six draws of \<^verbatim>\<open>getFallbackData\<close>.\<close>

record fallback_draws =
  f_gold_ltp :: real
  f_gold_change :: real
  f_gold_pct :: real
  f_silver_ltp :: real
  f_silver_change :: real
  f_silver_pct :: real

definition getFallbackData :: "fallback_draws \<Rightarrow> nat \<Rightarrow> mcx_data" where
  "getFallbackData f now =
     \<lparr>mcx_gold = Some
        \<lparr>symbol = ''GOLD'', ltp = 105200 + (f_gold_ltp f - 0.5) * 1000,
         change = (f_gold_change f - 0.5) * 500, changePercent = (f_gold_pct f - 0.5) * 2,
         high = 105800, low = 104600, open_price = 105000, close_price = 105100,
         volume = 12500, timestamp = now\<rparr>,
      mcx_silver = Some
        \<lparr>symbol = ''SILVER'', ltp = 123800 + (f_silver_ltp f - 0.5) * 2000,
         change = (f_silver_change f - 0.5) * 1000, changePercent = (f_silver_pct f - 0.5) * 3,
         high = 124500, low = 123100, open_price = 123500, close_price = 123700,
         volume = 8500, timestamp = now\<rparr>\<rparr>"

text \<open>
  One record of the upstream array. A numeric field is \<open>None\<close> where \<^verbatim>\<open>parseFloat\<close> or
  \<^verbatim>\<open>parseInt\<close> yields \<^verbatim>\<open>NaN\<close>; \<^verbatim>\<open>x || 0\<close> then gives \<open>0\<close>. An absent \<^verbatim>\<open>Symbol\<close> is the empty string.
\<close>

record mcx_item =
  Symbol :: string
  LTP :: "real option"
  Change :: "real option"
  ChangePercent :: "real option"
  High :: "real option"
  Low :: "real option"
  Open :: "real option"
  Close :: "real option"
  Volume :: "int option"

definition or_zero :: "'a::zero option \<Rightarrow> 'a" where
  "or_zero x = (case x of None \<Rightarrow> 0 | Some v \<Rightarrow> v)"

definition item_quote :: "mcx_item \<Rightarrow> nat \<Rightarrow> quote" where
  "item_quote item now =
     \<lparr>symbol = Symbol item, ltp = or_zero (LTP item), change = or_zero (Change item),
      changePercent = or_zero (ChangePercent item), high = or_zero (High item),
      low = or_zero (Low item), open_price = or_zero (Open item),
      close_price = or_zero (Close item), volume = or_zero (Volume item), timestamp = now\<rparr>"

text \<open>
  The parsed payload: not an array, an array of records, or an array with an element that
  makes the loop of \<^verbatim>\<open>parseMCXData\<close> throw (a \<^verbatim>\<open>null\<close>, a \<^verbatim>\<open>Symbol\<close> that is no string);
  its \<^verbatim>\<open>catch\<close> then returns the fallback data.
\<close>

datatype json = NotArray | Items "mcx_item list" | Malformed

definition parseItem :: "nat \<Rightarrow> mcx_item \<Rightarrow> mcx_data \<Rightarrow> mcx_data" where
  "parseItem now item m =
     (if Symbol item = [] then m
      else
        let sym = toUpperCase (Symbol item);
            m1 = (if includes_str sym ''GOLD'' then m\<lparr>mcx_gold := Some (item_quote item now)\<rparr> else m)
        in if includes_str sym ''SILVER'' then m1\<lparr>mcx_silver := Some (item_quote item now)\<rparr> else m1)"

definition parseMCXData :: "json \<Rightarrow> fallback_draws \<Rightarrow> nat \<Rightarrow> mcx_data" where
  "parseMCXData data f now =
     (case data of
        NotArray \<Rightarrow> \<lparr>mcx_gold = None, mcx_silver = None\<rparr>
      | Items items \<Rightarrow> fold (parseItem now) items \<lparr>mcx_gold = None, mcx_silver = None\<rparr>
      | Malformed \<Rightarrow> getFallbackData f now)"

text \<open>
  What \<^verbatim>\<open>axios.post\<close> and \<^verbatim>\<open>JSON.parse\<close> can do inside the \<^verbatim>\<open>try\<close> of \<^verbatim>\<open>fetchLiveData\<close>:
  the request is rejected (network error, the 10 s timeout, a non-success status), the
  response has no \<^verbatim>\<open>data.d\<close>, \<^verbatim>\<open>JSON.parse\<close> throws, or a value is parsed.
\<close>

datatype axios_outcome = Rejected | NoPayload | BadJSON | Parsed json

definition fetchLiveData :: "axios_outcome \<Rightarrow> fallback_draws \<Rightarrow> nat \<Rightarrow> mcx_data" where
  "fetchLiveData outcome f now =
     (case outcome of
        Parsed data \<Rightarrow> parseMCXData data f now
      | _ \<Rightarrow> getFallbackData f now)"

text \<open>The request or its payload is unusable: every case that ends in \<^verbatim>\<open>getFallbackData\<close>.\<close>

definition fetch_failed :: "axios_outcome \<Rightarrow> bool" where
  "fetch_failed outcome =
     (case outcome of
        Parsed NotArray \<Rightarrow> False
      | Parsed (Items items) \<Rightarrow> False
      | _ \<Rightarrow> True)"


section \<open>server.js: the update scheduler\<close>

text \<open>Everything the environment supplies to one ten-second tick.\<close>

record tick =
  fetch :: axios_outcome
  fallback :: fallback_draws
  draws :: "string \<Rightarrow> city_draws"
  now :: nat

definition has_quote :: "mcx_data \<Rightarrow> bool" where
  "has_quote m = (mcx_gold m \<noteq> None \<or> mcx_silver m \<noteq> None)"

text \<open>
  \<^verbatim>\<open>updatePricesFromMCX\<close>. Its \<^verbatim>\<open>catch\<close> is entered only by its own
  \<^verbatim>\<open>throw new Error('No valid MCX data received')\<close>, because \<^verbatim>\<open>fetchLiveData\<close> catches every
  error of the request itself. If \<^verbatim>\<open>updatePricesSimulated\<close> throws there, the timer is not set.
\<close>

definition updatePricesFromMCX :: "tick \<Rightarrow> server \<Rightarrow> js_error + server" where
  "updatePricesFromMCX t st =
     (let m = fetchLiveData (fetch t) (fallback t) (now t)
      in if has_quote m then
           let cp = convertToLocationPrices m METRO_CITIES (now t)
           in Inr (st\<lparr>currentPrices := cp, emitted := emitted st @ [cp]\<rparr>)
         else
           case updatePricesSimulated (draws t) (now t) (st\<lparr>useMCXData := False\<rparr>) of
             Inl e \<Rightarrow> Inl e
           | Inr st' \<Rightarrow> Inr (st'\<lparr>timers := timers st' @ [5 * 60 * 1000]\<rparr>))"

text \<open>
  \<^verbatim>\<open>updatePrices\<close>. Its own \<^verbatim>\<open>catch\<close> calls \<^verbatim>\<open>updatePricesSimulated\<close> once more; that call
  throws again, since the city that was missing is still missing, so an \<open>Inl\<close> stays an \<open>Inl\<close>.
\<close>

definition updatePrices :: "tick \<Rightarrow> server \<Rightarrow> js_error + server" where
  "updatePrices t st =
     (if useMCXData st then updatePricesFromMCX t st
      else updatePricesSimulated (draws t) (now t) st)"

text \<open>The callback of the five-minute \<^verbatim>\<open>setTimeout\<close>.\<close>

definition reenableMCX :: "server \<Rightarrow> server" where
  "reenableMCX st = st\<lparr>useMCXData := True, timers := tl (timers st)\<rparr>"

definition initializeApp :: "tick \<Rightarrow> server \<Rightarrow> server" where
  "initializeApp t st =
     (let m = fetchLiveData (fetch t) (fallback t) (now t)
      in if has_quote m then st\<lparr>currentPrices := convertToLocationPrices m METRO_CITIES (now t)\<rparr>
         else st\<lparr>useMCXData := False,
                 currentPrices := initializePrices (basePrices st) (draws t) (now t) (currentPrices st)\<rparr>)"

definition server_start :: server where
  "server_start =
     \<lparr>currentPrices = [], useMCXData = True, basePrices = BASE_PRICES, timers = [], emitted = []\<rparr>"


section \<open>server.js: the HTTP read of one city\<close>

datatype response = Json200 price_bundle | Json200_inherited | NotFound404

definition api_prices_cityId :: "server \<Rightarrow> string \<Rightarrow> response \<times> server" where
  "api_prices_cityId st cityId =
     (case js_get (currentPrices st) cityId of
        Own b \<Rightarrow> (Json200 b, st)
      | Inherited \<Rightarrow> (Json200_inherited, st)
      | Undefined \<Rightarrow> (NotFound404, st))"


section \<open>The browser client (PreciousMetalsApp)\<close>

record chart_series =
  timestamps :: "string list"
  prices :: "int list"
  maxPoints :: nat

datatype metal = Gold | Silver

datatype direction = Increased | Decreased

text \<open>The calls of \<^verbatim>\<open>showToast\<close>; a significant change names the metal, the direction and the city.\<close>

datatype toast =
    ConnectedToFeed
  | DisconnectedFromServer
  | ConnectionError
  | UnableToReconnect
  | Significant metal direction string

text \<open>
  The fields of the class, the log of toasts, the delays (milliseconds) of the pending
  reconnection timers and the number of sockets those timers have opened.
\<close>

record client =
  allPrices :: price_table
  cities :: "city list"
  filteredData :: price_table
  previousPrices :: price_table
  retryCount :: nat
  maxRetries :: nat
  chart_gold :: chart_series
  chart_silver :: chart_series
  toasts :: "toast list"
  pending :: "nat list"
  reconnects :: nat

definition client_start :: client where
  "client_start =
     \<lparr>allPrices = [], cities = [], filteredData = [], previousPrices = [],
      retryCount = 0, maxRetries = 5,
      chart_gold = \<lparr>timestamps = [], prices = [], maxPoints = 60\<rparr>,
      chart_silver = \<lparr>timestamps = [], prices = [], maxPoints = 60\<rparr>,
      toasts = [], pending = [], reconnects = 0\<rparr>"

subsection \<open>Reconnection\<close>

definition handleReconnection :: "client \<Rightarrow> client" where
  "handleReconnection st =
     (if retryCount st < maxRetries st
      then st\<lparr>pending := pending st @ [2 ^ retryCount st * 1000]\<rparr>
      else st\<lparr>toasts := toasts st @ [UnableToReconnect]\<rparr>)"

text \<open>The callback of the reconnection timer: count the attempt and open a new socket.\<close>

definition reconnectTimer :: "client \<Rightarrow> client" where
  "reconnectTimer st =
     st\<lparr>retryCount := retryCount st + 1, reconnects := reconnects st + 1, pending := tl (pending st)\<rparr>"

datatype socket_event = Connect | Disconnect | Connect_error | TimerFires

fun socket_step :: "client \<Rightarrow> socket_event \<Rightarrow> client" where
  "socket_step st Connect = st\<lparr>retryCount := 0, toasts := toasts st @ [ConnectedToFeed]\<rparr>"
| "socket_step st Disconnect = handleReconnection (st\<lparr>toasts := toasts st @ [DisconnectedFromServer]\<rparr>)"
| "socket_step st Connect_error = st\<lparr>toasts := toasts st @ [ConnectionError]\<rparr>"
| "socket_step st TimerFires = (if pending st = [] then st else reconnectTimer st)"

definition socket_run :: "client \<Rightarrow> socket_event list \<Rightarrow> client" where
  "socket_run st evs = foldl socket_step st evs"

text \<open>A transport loss whose reconnection attempt, if one is scheduled, is then made.\<close>

definition failed_attempts :: "nat \<Rightarrow> socket_event list" where
  "failed_attempts n = concat (replicate n [Disconnect, TimerFires])"

subsection \<open>Snapshots, chart series and notifications\<close>

text \<open>
  The handler of \<^verbatim>\<open>initialData\<close>. The in-place sort of \<^verbatim>\<open>this.cities\<close> by
  \<^verbatim>\<open>populateCityFilter\<close> and the writes to the page are left out; no function below reads
  \<^verbatim>\<open>cities\<close>.
\<close>

definition initialData :: "city list \<Rightarrow> price_table \<Rightarrow> client \<Rightarrow> client" where
  "initialData cs ps st = st\<lparr>cities := cs, allPrices := ps, previousPrices := ps\<rparr>"

definition average :: "int list \<Rightarrow> int" where
  "average xs = Math_round (of_int (sum_list xs) / of_nat (length xs))"

definition push_point :: "string \<Rightarrow> int \<Rightarrow> chart_series \<Rightarrow> chart_series" where
  "push_point timeLabel p ch =
     (let ts = timestamps ch @ [timeLabel]; ps = prices ch @ [p]
      in if length ts > maxPoints ch then ch\<lparr>timestamps := tl ts, prices := tl ps\<rparr>
         else ch\<lparr>timestamps := ts, prices := ps\<rparr>)"

definition updateChartData :: "string \<Rightarrow> client \<Rightarrow> client" where
  "updateChartData timeLabel st =
     (if allPrices st = [] then st
      else
        let allCityData = map snd (allPrices st);
            avgGoldPrice = average (map (\<lambda>c. k24 (gold c)) allCityData);
            avgSilverPrice = average (map (\<lambda>c. s999 (silver c)) allCityData)
        in st\<lparr>chart_gold := push_point timeLabel avgGoldPrice (chart_gold st),
               chart_silver := push_point timeLabel avgSilverPrice (chart_silver st)\<rparr>)"

text \<open>
  \<^verbatim>\<open>Math.abs(c - p) / p > 0.005\<close> on numbers: dividing a non-zero number by zero gives
  \<^verbatim>\<open>Infinity\<close>, which exceeds the threshold, and \<^verbatim>\<open>0 / 0\<close> is \<^verbatim>\<open>NaN\<close>, which does not.
\<close>

definition significantChangeThreshold :: real where
  "significantChangeThreshold = 0.005"

definition change_exceeds :: "int \<Rightarrow> int \<Rightarrow> bool" where
  "change_exceeds c p =
     (if p = 0 then c \<noteq> 0
      else \<bar>of_int c - of_int p\<bar> / of_int p > significantChangeThreshold)"

definition change_direction :: "int \<Rightarrow> int \<Rightarrow> direction" where
  "change_direction c p = (if c > p then Increased else Decreased)"

definition city_toasts :: "price_bundle \<Rightarrow> price_bundle \<Rightarrow> toast list" where
  "city_toasts current previous =
     (if change_exceeds (k24 (gold current)) (k24 (gold previous))
      then [Significant Gold (change_direction (k24 (gold current)) (k24 (gold previous)))
              (city_name (cityInfo current))]
      else [])
     @ (if change_exceeds (s999 (silver current)) (s999 (silver previous))
        then [Significant Silver (change_direction (s999 (silver current)) (s999 (silver previous)))
                (city_name (cityInfo current))]
        else [])"

text \<open>
  The \<^verbatim>\<open>forEach\<close> of \<^verbatim>\<open>checkSignificantChanges\<close> over the entries of \<^verbatim>\<open>allPrices\<close>, whose
  keys are distinct. A city the previous snapshot lacks is skipped; a key that only
  \<^verbatim>\<open>Object.prototype\<close> answers makes \<^verbatim>\<open>previous.gold['24k']\<close> throw, which ends the loop: the
  result is the toasts shown so far and the uncaught exception, if any.
\<close>

fun checkCities :: "price_table \<Rightarrow> price_table \<Rightarrow> toast list \<times> js_error option" where
  "checkCities previous [] = ([], None)"
| "checkCities previous ((cityId, current) # rest) =
     (case js_get previous cityId of
        Undefined \<Rightarrow> checkCities previous rest
      | Inherited \<Rightarrow> ([], Some TypeError)
      | Own p \<Rightarrow>
          (let r = checkCities previous rest in (city_toasts current p @ fst r, snd r)))"

definition checkSignificantChanges :: "client \<Rightarrow> client \<times> js_error option" where
  "checkSignificantChanges st =
     (let r = checkCities (previousPrices st) (allPrices st)
      in (st\<lparr>toasts := toasts st @ fst r\<rparr>, snd r))"

text \<open>
  \<^verbatim>\<open>handlePriceUpdate\<close>; the deep copy through JSON is the value itself. Rendering writes to
  the page only and is the separate function \<open>renderPriceGrid\<close> below.
\<close>

definition handlePriceUpdate :: "price_table \<Rightarrow> string \<Rightarrow> client \<Rightarrow> client \<times> js_error option" where
  "handlePriceUpdate newPrices timeLabel st =
     checkSignificantChanges
       (updateChartData timeLabel (st\<lparr>previousPrices := allPrices st, allPrices := newPrices\<rparr>))"

text \<open>A run of \<^verbatim>\<open>priceUpdate\<close> events, each with the time label the clock gives it.\<close>

definition priceUpdates :: "client \<Rightarrow> (price_table \<times> string) list \<Rightarrow> client" where
  "priceUpdates st updates =
     foldl (\<lambda>s u. fst (handlePriceUpdate (fst u) (snd u) s)) st updates"

subsection \<open>Filters and the price grid\<close>

record filter_inputs =
  cityFilter :: string
  metalFilter :: string
  searchInput :: string

definition passes :: "string \<Rightarrow> string \<Rightarrow> string \<times> price_bundle \<Rightarrow> bool" where
  "passes cityF searchTerm entry =
     (let cityId = fst entry; cityData = snd entry
      in if cityF \<noteq> [] \<and> cityId \<noteq> cityF then False
         else if searchTerm \<noteq> [] then
           (let cityName = toLowerCase (city_name (cityInfo cityData));
                stateName = toLowerCase (city_state (cityInfo cityData))
            in includes_str cityName searchTerm \<or> includes_str stateName searchTerm)
         else True)"

text \<open>
  One row of a metal section: purity, price and change against the previous snapshot.
  \<^verbatim>\<open>Object.entries\<close> lists the keys \<^verbatim>\<open>'925'\<close> and \<^verbatim>\<open>'999'\<close>, which are array indices, in
  ascending order, and the keys \<^verbatim>\<open>'24k'\<close>, \<^verbatim>\<open>'22k'\<close>, \<^verbatim>\<open>'18k'\<close> in the order of their creation.
\<close>

type_synonym price_row = "string \<times> int \<times> int"

record city_card =
  card_city :: city
  card_time :: nat
  card_gold :: "price_row list option"
  card_silver :: "price_row list option"

definition price_row_of :: "string \<Rightarrow> int \<Rightarrow> int option \<Rightarrow> price_row" where
  "price_row_of purity price prev =
     (let previousPrice = (case prev of None \<Rightarrow> price | Some q \<Rightarrow> if q = 0 then price else q)
      in (purity, price, price - previousPrice))"

definition renderGold :: "gold_prices \<Rightarrow> gold_prices option \<Rightarrow> string \<Rightarrow> price_row list option" where
  "renderGold cur prev metalF =
     (if metalF \<noteq> [] \<and> metalF \<noteq> ''gold'' then None
      else Some [price_row_of ''24k'' (k24 cur) (map_option k24 prev),
                 price_row_of ''22k'' (k22 cur) (map_option k22 prev),
                 price_row_of ''18k'' (k18 cur) (map_option k18 prev)])"

definition renderSilver :: "silver_prices \<Rightarrow> silver_prices option \<Rightarrow> string \<Rightarrow> price_row list option" where
  "renderSilver cur prev metalF =
     (if metalF \<noteq> [] \<and> metalF \<noteq> ''silver'' then None
      else Some [price_row_of ''925'' (s925 cur) (map_option s925 prev),
                 price_row_of ''999'' (s999 cur) (map_option s999 prev)])"

definition createCityCard :: "client \<Rightarrow> string \<Rightarrow> price_bundle \<Rightarrow> city_card" where
  "createCityCard st metalF cityData =
     (let previousCityData =
            (case js_get (previousPrices st) (city_id (cityInfo cityData)) of
               Own p \<Rightarrow> Some p | _ \<Rightarrow> None)
      in \<lparr>card_city = cityInfo cityData, card_time = lastUpdated cityData,
          card_gold = renderGold (gold cityData) (map_option gold previousCityData) metalF,
          card_silver = renderSilver (silver cityData) (map_option silver previousCityData) metalF\<rparr>)"

text \<open>
  \<^verbatim>\<open>Array.prototype.sort\<close> with the comparator \<^verbatim>\<open>a.cityInfo.name.localeCompare(b.cityInfo.name)\<close>:
  a stable sort; \<open>le a b\<close> stands for \<^verbatim>\<open>a.localeCompare(b) <= 0\<close>, which the browser supplies.
\<close>

fun insert_by :: "(string \<Rightarrow> string \<Rightarrow> bool) \<Rightarrow> price_bundle \<Rightarrow> price_bundle list \<Rightarrow> price_bundle list" where
  "insert_by le x [] = [x]"
| "insert_by le x (y # ys) =
     (if le (city_name (cityInfo x)) (city_name (cityInfo y)) then x # y # ys
      else y # insert_by le x ys)"

definition sort_by_name :: "(string \<Rightarrow> string \<Rightarrow> bool) \<Rightarrow> price_bundle list \<Rightarrow> price_bundle list" where
  "sort_by_name le xs = foldr (insert_by le) xs []"

datatype grid = NoCitiesFound | Cards "city_card list"

definition renderPriceGrid :: "(string \<Rightarrow> string \<Rightarrow> bool) \<Rightarrow> string \<Rightarrow> client \<Rightarrow> grid" where
  "renderPriceGrid le metalF st =
     (let dataToRender = (if length (filteredData st) > 0 then filteredData st else allPrices st)
      in if length dataToRender = 0 then NoCitiesFound
         else Cards (map (createCityCard st metalF) (sort_by_name le (map snd dataToRender))))"

definition applyFilters ::
  "(string \<Rightarrow> string \<Rightarrow> bool) \<Rightarrow> filter_inputs \<Rightarrow> client \<Rightarrow> client \<times> grid" where
  "applyFilters le f st =
     (let searchTerm = toLowerCase (searchInput f);
          st' = st\<lparr>filteredData := filter (passes (cityFilter f) searchTerm) (allPrices st)\<rparr>
      in (st', renderPriceGrid le (metalFilter f) st'))"


section \<open>Notions of the specification and sample inputs\<close>

text \<open>
  The relative change of a price against the previous one, and the notifications the
  specification asks for: one per city and metal whose reference purity (gold 24k, silver 999)
  changed by more than 0.5 percent, for the cities the previous snapshot has.
\<close>

definition relative_change :: "int \<Rightarrow> int \<Rightarrow> real" where
  "relative_change c p = \<bar>of_int c - of_int p\<bar> / \<bar>of_int p\<bar>"

definition spec_toasts :: "price_table \<Rightarrow> string \<times> price_bundle \<Rightarrow> toast list" where
  "spec_toasts previous entry =
     (case map_of previous (fst entry) of
        None \<Rightarrow> []
      | Some p \<Rightarrow>
          (if relative_change (k24 (gold (snd entry))) (k24 (gold p)) > 0.005
           then [Significant Gold (change_direction (k24 (gold (snd entry))) (k24 (gold p)))
                   (city_name (cityInfo (snd entry)))]
           else [])
          @ (if relative_change (s999 (silver (snd entry))) (s999 (silver p)) > 0.005
             then [Significant Silver (change_direction (s999 (silver (snd entry))) (s999 (silver p)))
                     (city_name (cityInfo (snd entry)))]
             else []))"

definition reference_positive :: "price_table \<Rightarrow> bool" where
  "reference_positive ps = list_all (\<lambda>e. 0 < k24 (gold (snd e)) \<and> 0 < s999 (silver (snd e))) ps"

definition own_keys_only :: "price_table \<Rightarrow> bool" where
  "own_keys_only ps = list_all (\<lambda>e. fst e \<notin> set Object_prototype) ps"

definition mumbai_bundle :: "int \<Rightarrow> price_bundle" where
  "mumbai_bundle p =
     \<lparr>cityInfo = \<lparr>city_id = ''mumbai'', city_name = ''Mumbai'', city_state = ''Maharashtra''\<rparr>,
      gold = \<lparr>k24 = p, k22 = 98634, k18 = 80682\<rparr>,
      silver = \<lparr>s999 = 126480, s925 = 116892\<rparr>,
      lastUpdated = 0, trend_gold = Stable, trend_silver = Stable, mcxData = None\<rparr>"

definition snapshot_A :: price_table where
  "snapshot_A = [(''mumbai'', mumbai_bundle 107610)]"

definition snapshot_B :: price_table where
  "snapshot_B = [(''mumbai'', mumbai_bundle 108500)]"

text \<open>
  A sliding window: the last \<open>n\<close> entries of everything appended, in order. An update whose
  snapshot is empty appends nothing.
\<close>

definition last_points :: "nat \<Rightarrow> 'a list \<Rightarrow> 'a list" where
  "last_points n xs = drop (length xs - n) xs"

definition gold_average :: "price_table \<Rightarrow> int" where
  "gold_average ps = average (map (\<lambda>c. k24 (gold c)) (map snd ps))"

definition silver_average :: "price_table \<Rightarrow> int" where
  "silver_average ps = average (map (\<lambda>c. s999 (silver c)) (map snd ps))"

definition charted :: "(price_table \<times> string) list \<Rightarrow> (price_table \<times> string) list" where
  "charted updates = filter (\<lambda>u. fst u \<noteq> []) updates"


text \<open>
  Strictly positive prices: of one bundle, of the base table, and of the store at every
  city of \<open>METRO_CITIES\<close>. A quote is usable when it is absent or has \<open>ltp = 0\<close> (the fallback
  constants then stand in) or has \<open>ltp\<close> of at least 1.
\<close>

definition positive_prices :: "price_bundle \<Rightarrow> bool" where
  "positive_prices b =
     (0 < k24 (gold b) \<and> 0 < k22 (gold b) \<and> 0 < k18 (gold b)
      \<and> 0 < s999 (silver b) \<and> 0 < s925 (silver b))"

definition positive_base :: "base_prices \<Rightarrow> bool" where
  "positive_base bp =
     (0 < k24 (base_gold bp) \<and> 0 < k22 (base_gold bp) \<and> 0 < k18 (base_gold bp)
      \<and> 0 < s999 (base_silver bp) \<and> 0 < s925 (base_silver bp))"

definition all_cities_positive :: "price_table \<Rightarrow> bool" where
  "all_cities_positive cp =
     list_all (\<lambda>c. case map_of cp (city_id c) of None \<Rightarrow> False | Some b \<Rightarrow> positive_prices b)
       METRO_CITIES"

definition store_complete :: "price_table \<Rightarrow> bool" where
  "store_complete cp = list_all (\<lambda>c. map_of cp (city_id c) \<noteq> None) METRO_CITIES"

definition usable_quote :: "quote option \<Rightarrow> bool" where
  "usable_quote q = (case q of None \<Rightarrow> True | Some x \<Rightarrow> ltp x = 0 \<or> 1 \<le> ltp x)"

text \<open>Sample inputs: every draw \<open>1/2\<close>, a start-up and two ticks whose request is rejected.\<close>

definition half_draws :: city_draws where
  "half_draws =
     \<lparr>d_24k = 1 / 2, d_22k = 1 / 2, d_18k = 1 / 2, d_999 = 1 / 2, d_925 = 1 / 2,
      d_trend_gold = 1 / 2, d_trend_silver = 1 / 2\<rparr>"

definition half_fallback :: fallback_draws where
  "half_fallback =
     \<lparr>f_gold_ltp = 1 / 2, f_gold_change = 1 / 2, f_gold_pct = 1 / 2,
      f_silver_ltp = 1 / 2, f_silver_change = 1 / 2, f_silver_pct = 1 / 2\<rparr>"

definition tick0 :: tick where
  "tick0 = \<lparr>fetch = Rejected, fallback = half_fallback, draws = (\<lambda>c. half_draws), now = 0\<rparr>"

definition st0 :: server where
  "st0 = initializeApp tick0 server_start"

definition tick1 :: tick where
  "tick1 =
     \<lparr>fetch = Rejected, fallback = half_fallback\<lparr>f_gold_ltp := 3 / 4\<rparr>,
      draws = (\<lambda>c. half_draws), now = 10\<rparr>"

definition tick_empty :: tick where
  "tick_empty =
     \<lparr>fetch = Parsed (Items []), fallback = half_fallback, draws = (\<lambda>c. half_draws), now = 10\<rparr>"

definition tiny_gold :: mcx_item where
  "tiny_gold =
     \<lparr>Symbol = ''GOLD'', LTP = Some (1 / 4), Change = None, ChangePercent = None, High = None,
      Low = None, Open = None, Close = None, Volume = None\<rparr>"

definition tick_tiny :: tick where
  "tick_tiny =
     \<lparr>fetch = Parsed (Items [tiny_gold]), fallback = half_fallback, draws = (\<lambda>c. half_draws),
      now = 10\<rparr>"

definition gold24_of :: "js_error + server \<Rightarrow> string \<Rightarrow> int option" where
  "gold24_of r cityId =
     (case r of
        Inl e \<Rightarrow> None
      | Inr st \<Rightarrow> map_option (\<lambda>b. k24 (gold b)) (map_of (currentPrices st) cityId))"

definition no_match :: filter_inputs where
  "no_match = \<lparr>cityFilter = [], metalFilter = [], searchInput = ''zzz''\<rparr>"


section \<open>Properties of the synthetic derivation and of the two multiplier tables\<close>

lemma metro_ids:
  "map city_id METRO_CITIES =
     [''mumbai'', ''delhi'', ''bangalore'', ''kolkata'', ''chennai'', ''hyderabad'', ''pune'',
      ''ahmedabad'', ''jaipur'', ''surat'', ''lucknow'', ''kanpur'', ''nagpur'', ''indore'',
      ''thane'', ''bhopal'', ''visakhapatnam'', ''pimpri'', ''patna'', ''vadodara'']"
  by (simp add: METRO_CITIES_def)



lemma synthetic_table:
  "map (map_of cityVariations) (map city_id METRO_CITIES)
     = [Some 1.02, Some 1.01, Some 1.015, Some 1.025, Some 1.01, Some 1.005, Some 1.018,
        Some 0.995, Some 0.98, Some 0.99,
        None, None, None, None, None, None, None, None, None, None]"
  by code_simp

lemma synthetic_default:
  "map variation [''lucknow'', ''kanpur'', ''nagpur'', ''indore'', ''thane'', ''bhopal'',
        ''visakhapatnam'', ''pimpri'', ''patna'', ''vadodara'']
     = [1, 1, 1, 1, 1, 1, 1, 1, 1, 1]"
  by code_simp

lemma live_table:
  "map (map_of cityMultipliers) (map city_id METRO_CITIES)
     = map Some [1.025, 1.015, 1.020, 1.030, 1.015, 1.010, 1.022, 0.995, 0.985, 0.990,
                 1.005, 1.000, 1.002, 0.998, 1.020, 1.005, 1.012, 1.018, 1.008, 0.995]"
  by code_simp

lemma mumbai_differs:
  "variation ''mumbai'' = 1.02 \<and> getCityMultiplier ''mumbai'' = 1.025
   \<and> generateCityPrice 100000 ''mumbai'' (1 / 2) = 102000
   \<and> s999 (calculateSilverPrices (Some \<lparr>symbol = ''SILVER'', ltp = 100000, change = 0,
         changePercent = 0, high = 0, low = 0, open_price = 0, close_price = 0, volume = 0,
         timestamp = 0\<rparr>) ''mumbai'') = 102500"
  by (simp add: cityVariations_def variation_def cityMultipliers_def getCityMultiplier_def
      generateCityPrice_def calculateSilverPrices_def Math_round_def)

text \<open>
  C10. The table of \<open>generateCityPrice\<close> has entries for the first ten cities only and the
  other ten get the multiplier 1.0; the table of \<open>getCityMultiplier\<close> has an entry for each
  of the twenty cities, with other values (\<open>mumbai\<close>: 1.02 against 1.025). From the same
  price 100000 and jitter 1.0 the synthetic path derives 102000 for \<open>mumbai\<close> and the live
  path 102500.
\<close>

theorem multiplier_tables_differ:
  "map (map_of cityVariations) (map city_id METRO_CITIES)
     = [Some 1.02, Some 1.01, Some 1.015, Some 1.025, Some 1.01, Some 1.005, Some 1.018,
        Some 0.995, Some 0.98, Some 0.99,
        None, None, None, None, None, None, None, None, None, None]
   \<and> map variation [''lucknow'', ''kanpur'', ''nagpur'', ''indore'', ''thane'', ''bhopal'',
        ''visakhapatnam'', ''pimpri'', ''patna'', ''vadodara'']
     = [1, 1, 1, 1, 1, 1, 1, 1, 1, 1]
   \<and> map (map_of cityMultipliers) (map city_id METRO_CITIES)
     = map Some [1.025, 1.015, 1.020, 1.030, 1.015, 1.010, 1.022, 0.995, 0.985, 0.990,
                 1.005, 1.000, 1.002, 0.998, 1.020, 1.005, 1.012, 1.018, 1.008, 0.995]
   \<and> variation ''mumbai'' = 1.02 \<and> getCityMultiplier ''mumbai'' = 1.025
   \<and> generateCityPrice 100000 ''mumbai'' (1 / 2) = 102000
   \<and> s999 (calculateSilverPrices (Some \<lparr>symbol = ''SILVER'', ltp = 100000, change = 0,
         changePercent = 0, high = 0, low = 0, open_price = 0, close_price = 0, volume = 0,
         timestamp = 0\<rparr>) ''mumbai'') = 102500"
  using synthetic_table synthetic_default live_table mumbai_differs by blast


section \<open>Properties of the reconnection backoff\<close>

lemma failed_attempts_Suc:
  "failed_attempts (Suc n) = failed_attempts n @ [Disconnect, TimerFires]"
  unfolding failed_attempts_def by (induction n) simp_all

lemma socket_run_append: "socket_run st (xs @ ys) = socket_run (socket_run st xs) ys"
  by (simp add: socket_run_def)

lemma after_failed_attempts:
  "retryCount (socket_run client_start (failed_attempts n)) = min n 5
   \<and> reconnects (socket_run client_start (failed_attempts n)) = min n 5
   \<and> pending (socket_run client_start (failed_attempts n)) = []
   \<and> maxRetries (socket_run client_start (failed_attempts n)) = 5"
proof (induction n)
  case 0
  show ?case by (simp add: failed_attempts_def socket_run_def client_start_def)
next
  case (Suc n)
  then show ?case
    by (auto simp: failed_attempts_Suc socket_run_append socket_run_def
        handleReconnection_def reconnectTimer_def)
qed

lemma exhausted_stays:
  assumes "Connect \<notin> set evs" "retryCount st = 5" "maxRetries st = 5" "pending st = []"
  shows "reconnects (socket_run st evs) = reconnects st \<and> pending (socket_run st evs) = []
         \<and> retryCount (socket_run st evs) = 5"
  using assms
proof (induction evs arbitrary: st)
  case Nil
  then show ?case by (simp add: socket_run_def)
next
  case (Cons e evs)
  let ?s = "socket_step st e"
  from Cons.prems have e: "e \<noteq> Connect" by auto
  with Cons.prems have
    "retryCount ?s = 5 \<and> maxRetries ?s = 5 \<and> pending ?s = [] \<and> reconnects ?s = reconnects st"
    by (cases e) (simp_all add: handleReconnection_def)
  moreover from Cons.prems have "Connect \<notin> set evs" by simp
  ultimately have
    "reconnects (socket_run ?s evs) = reconnects st \<and> pending (socket_run ?s evs) = []
     \<and> retryCount (socket_run ?s evs) = 5"
    using Cons.IH[of ?s] by simp
  then show ?case by (simp add: socket_run_def)
qed

text \<open>
  When every loss is followed by its own timer before the next loss, the attempt after \<open>k\<close>
  failed ones is scheduled \<open>2^k\<close> seconds ahead, \<open>n\<close> losses lead to \<open>min n 5\<close> attempts, and
  after five failed attempts no event other than a successful connect leads to another.
\<close>

lemma serial_losses_backoff:
  "(k < 5 \<longrightarrow> pending (socket_run client_start (failed_attempts k @ [Disconnect])) = [2 ^ k * 1000])
   \<and> reconnects (socket_run client_start (failed_attempts n)) = min n 5
   \<and> (Connect \<notin> set evs \<longrightarrow>
        reconnects (socket_run client_start (failed_attempts 5 @ evs)) = 5
        \<and> pending (socket_run client_start (failed_attempts 5 @ evs)) = [])"
proof (intro conjI impI)
  assume "k < 5"
  then show "pending (socket_run client_start (failed_attempts k @ [Disconnect])) = [2 ^ k * 1000]"
    using after_failed_attempts[of k]
    by (simp add: socket_run_append) (simp add: socket_run_def handleReconnection_def)
next
  show "reconnects (socket_run client_start (failed_attempts n)) = min n 5"
    using after_failed_attempts[of n] by simp
next
  assume a: "Connect \<notin> set evs"
  let ?s = "socket_run client_start (failed_attempts 5)"
  have "retryCount ?s = 5" "maxRetries ?s = 5" "pending ?s = []" "reconnects ?s = 5"
    using after_failed_attempts[of 5] by simp_all
  with exhausted_stays[OF a, of ?s]
  show "reconnects (socket_run client_start (failed_attempts 5 @ evs)) = 5"
    and "pending (socket_run client_start (failed_attempts 5 @ evs)) = []"
    by (simp_all add: socket_run_append)
qed

text \<open>
  C7. The cap and the doubling hold only while the losses do not overlap: the count is
  read when a loss schedules its timer and raised when the timer fires. After one loss, its
  attempt and a successful connect, which sets the count back to 0, seven losses that
  arrive before any of their timers fires schedule seven attempts, each 1 second ahead, and
  all seven are made without a connect in between: two more than \<open>maxRetries\<close>, none of them
  with a doubled delay.
\<close>

theorem overlapping_losses_exceed_cap:
  "retryCount (socket_run client_start [Disconnect, TimerFires]) = 1
   \<and> retryCount (socket_run client_start [Disconnect, TimerFires, Connect]) = 0
   \<and> pending (socket_run client_start
        ([Disconnect, TimerFires, Connect] @ replicate 7 Disconnect)) = replicate 7 1000
   \<and> Connect \<notin> set (replicate 7 Disconnect @ replicate 7 TimerFires)
   \<and> maxRetries (socket_run client_start
        ([Disconnect, TimerFires, Connect] @ replicate 7 Disconnect @ replicate 7 TimerFires)) = 5
   \<and> retryCount (socket_run client_start
        ([Disconnect, TimerFires, Connect] @ replicate 7 Disconnect @ replicate 7 TimerFires)) = 7
   \<and> reconnects (socket_run client_start
        ([Disconnect, TimerFires, Connect] @ replicate 7 Disconnect @ replicate 7 TimerFires)) = 1 + 7"
  by code_simp


section \<open>Properties of the client's reconciliation\<close>

lemma change_exceeds_relative:
  "0 < p \<Longrightarrow> change_exceeds c p = (relative_change c p > 0.005)"
  by (simp add: change_exceeds_def relative_change_def significantChangeThreshold_def)

lemma city_toasts_spec:
  assumes "map_of previous k = Some p" "0 < k24 (gold p)" "0 < s999 (silver p)"
  shows "city_toasts current p = spec_toasts previous (k, current)"
  using assms by (simp add: city_toasts_def spec_toasts_def change_exceeds_relative)

lemma reference_positiveD:
  "reference_positive ps \<Longrightarrow> map_of ps k = Some p \<Longrightarrow> 0 < k24 (gold p) \<and> 0 < s999 (silver p)"
  by (auto simp: reference_positive_def list_all_iff dest!: map_of_SomeD)

lemma checkCities_spec:
  assumes "reference_positive previous" "own_keys_only new"
  shows "checkCities previous new = (concat (map (spec_toasts previous) new), None)"
  using assms(2)
proof (induction new)
  case Nil
  show ?case by simp
next
  case (Cons e new)
  obtain k cur where e: "e = (k, cur)" by (cases e)
  from Cons.prems have k: "k \<notin> set Object_prototype" and rest: "own_keys_only new"
    by (simp_all add: own_keys_only_def e)
  show ?case
  proof (cases "map_of previous k")
    case None
    with k Cons.IH[OF rest] show ?thesis
      by (simp add: e js_get_def spec_toasts_def)
  next
    case (Some p)
    from reference_positiveD[OF assms(1) Some] have "0 < k24 (gold p)" "0 < s999 (silver p)"
      by simp_all
    from city_toasts_spec[OF Some this] Some Cons.IH[OF rest] show ?thesis
      by (simp add: e js_get_def)
  qed
qed

text \<open>
  C5. A price update stores the table that was current as \<open>previousPrices\<close> and adopts the
  incoming one; given positive reference prices in the table that was current, the toasts
  it adds are those of the specification: for each city of the incoming snapshot that the
  previous one has, one for gold and one for silver exactly when the relative change of the
  24k or 999 price exceeds 0.5 percent. Snapshot A (mumbai 24k = 107610) followed by
  snapshot B (108500) notifies for gold in Mumbai.
\<close>

theorem previous_then_notify:
  assumes "reference_positive (allPrices st)" and "own_keys_only newPrices"
  shows "snd (handlePriceUpdate newPrices timeLabel st) = None
         \<and> previousPrices (fst (handlePriceUpdate newPrices timeLabel st)) = allPrices st
         \<and> allPrices (fst (handlePriceUpdate newPrices timeLabel st)) = newPrices
         \<and> toasts (fst (handlePriceUpdate newPrices timeLabel st))
             = toasts st @ concat (map (spec_toasts (allPrices st)) newPrices)
         \<and> toasts (fst (handlePriceUpdate snapshot_B ''10:00:10''
               (initialData [] snapshot_A client_start)))
             = [Significant Gold Increased ''Mumbai'']"
proof -
  let ?s = "updateChartData timeLabel (st\<lparr>previousPrices := allPrices st, allPrices := newPrices\<rparr>)"
  have f: "previousPrices ?s = allPrices st" "allPrices ?s = newPrices" "toasts ?s = toasts st"
    by (simp_all add: updateChartData_def Let_def)
  have general: "snd (handlePriceUpdate newPrices timeLabel st) = None
         \<and> previousPrices (fst (handlePriceUpdate newPrices timeLabel st)) = allPrices st
         \<and> allPrices (fst (handlePriceUpdate newPrices timeLabel st)) = newPrices
         \<and> toasts (fst (handlePriceUpdate newPrices timeLabel st))
             = toasts st @ concat (map (spec_toasts (allPrices st)) newPrices)"
    using checkCities_spec[OF assms] f
    by (simp add: handlePriceUpdate_def checkSignificantChanges_def Let_def)
  have scenario: "toasts (fst (handlePriceUpdate snapshot_B ''10:00:10''
               (initialData [] snapshot_A client_start)))
             = [Significant Gold Increased ''Mumbai'']"
    by (simp add: handlePriceUpdate_def checkSignificantChanges_def Let_def updateChartData_def
        initialData_def client_start_def snapshot_A_def snapshot_B_def mumbai_bundle_def
        js_get_def city_toasts_def change_exceeds_def change_direction_def
        significantChangeThreshold_def)
  from general scenario show ?thesis by blast
qed

theorem previous_then_notify_witness:
  "reference_positive (allPrices (initialData [] snapshot_A client_start))
   \<and> own_keys_only snapshot_B
   \<and> relative_change 108500 107610 > 0.005
   \<and> snd (handlePriceUpdate snapshot_B ''10:00:10'' (initialData [] snapshot_A client_start)) = None
   \<and> previousPrices (fst (handlePriceUpdate snapshot_B ''10:00:10''
         (initialData [] snapshot_A client_start))) = snapshot_A
   \<and> allPrices (fst (handlePriceUpdate snapshot_B ''10:00:10''
         (initialData [] snapshot_A client_start))) = snapshot_B
   \<and> toasts (fst (handlePriceUpdate snapshot_B ''10:00:10''
         (initialData [] snapshot_A client_start))) = [Significant Gold Increased ''Mumbai'']"
proof -
  have h1: "reference_positive (allPrices (initialData [] snapshot_A client_start))"
    by (simp add: reference_positive_def initialData_def snapshot_A_def mumbai_bundle_def)
  have h2: "own_keys_only snapshot_B"
    by (simp add: own_keys_only_def snapshot_B_def Object_prototype_def)
  have r: "relative_change 108500 107610 > 0.005"
    by (simp add: relative_change_def)
  have a: "allPrices (initialData [] snapshot_A client_start) = snapshot_A"
    by (simp add: initialData_def)
  note t = previous_then_notify[OF h1 h2, of "''10:00:10''", unfolded a]
  from t h1 h2 r show ?thesis by blast
qed

lemma last_points_snoc:
  "last_points n (xs @ [x]) =
     (if length (last_points n xs @ [x]) > n then tl (last_points n xs @ [x])
      else last_points n xs @ [x])"
proof (cases "length xs < n")
  case True
  then show ?thesis by (simp add: last_points_def)
next
  case False
  then have le: "n \<le> length xs" by simp
  show ?thesis
  proof (cases "n = 0")
    case True
    then show ?thesis by (simp add: last_points_def)
  next
    case False
    with le have ne: "drop (length xs - n) xs \<noteq> []" by simp
    from le have "Suc (length xs) - n = Suc (length xs - n)" by simp
    with le ne show ?thesis
      by (simp add: last_points_def drop_Suc tl_drop)
  qed
qed

lemma length_last_points: "length (last_points n xs) = min n (length xs)"
  by (simp add: last_points_def)

lemma push_point_window:
  assumes "maxPoints ch = n" "timestamps ch = last_points n ts" "prices ch = last_points n ps"
    and "length ts = length ps"
  shows "maxPoints (push_point l p ch) = n
         \<and> timestamps (push_point l p ch) = last_points n (ts @ [l])
         \<and> prices (push_point l p ch) = last_points n (ps @ [p])"
  using assms
  by (simp add: push_point_def Let_def last_points_snoc length_last_points)

lemma chart_of_handlePriceUpdate:
  "chart_gold (fst (handlePriceUpdate ps l st))
     = (if ps = [] then chart_gold st else push_point l (gold_average ps) (chart_gold st))
   \<and> chart_silver (fst (handlePriceUpdate ps l st))
     = (if ps = [] then chart_silver st else push_point l (silver_average ps) (chart_silver st))"
  by (simp add: handlePriceUpdate_def checkSignificantChanges_def updateChartData_def Let_def
      gold_average_def silver_average_def)

lemma priceUpdates_snoc:
  "priceUpdates st (us @ [u]) = fst (handlePriceUpdate (fst u) (snd u) (priceUpdates st us))"
  by (simp add: priceUpdates_def)

lemma chart_invariant:
  "maxPoints (chart_gold (priceUpdates client_start us)) = 60
   \<and> timestamps (chart_gold (priceUpdates client_start us)) = last_points 60 (map snd (charted us))
   \<and> prices (chart_gold (priceUpdates client_start us))
       = last_points 60 (map (\<lambda>u. gold_average (fst u)) (charted us))
   \<and> maxPoints (chart_silver (priceUpdates client_start us)) = 60
   \<and> timestamps (chart_silver (priceUpdates client_start us)) = last_points 60 (map snd (charted us))
   \<and> prices (chart_silver (priceUpdates client_start us))
       = last_points 60 (map (\<lambda>u. silver_average (fst u)) (charted us))"
proof (induction us rule: rev_induct)
  case Nil
  show ?case by (simp add: priceUpdates_def client_start_def charted_def last_points_def)
next
  case (snoc u us)
  show ?case
  proof (cases "fst u = []")
    case True
    with snoc show ?thesis
      by (simp add: priceUpdates_snoc chart_of_handlePriceUpdate charted_def)
  next
    case False
    let ?st = "priceUpdates client_start us"
    have g: "maxPoints (push_point (snd u) (gold_average (fst u)) (chart_gold ?st)) = 60
         \<and> timestamps (push_point (snd u) (gold_average (fst u)) (chart_gold ?st))
             = last_points 60 (map snd (charted us) @ [snd u])
         \<and> prices (push_point (snd u) (gold_average (fst u)) (chart_gold ?st))
             = last_points 60 (map (\<lambda>u. gold_average (fst u)) (charted us) @ [gold_average (fst u)])"
      using snoc by (intro push_point_window) simp_all
    have s: "maxPoints (push_point (snd u) (silver_average (fst u)) (chart_silver ?st)) = 60
         \<and> timestamps (push_point (snd u) (silver_average (fst u)) (chart_silver ?st))
             = last_points 60 (map snd (charted us) @ [snd u])
         \<and> prices (push_point (snd u) (silver_average (fst u)) (chart_silver ?st))
             = last_points 60 (map (\<lambda>u. silver_average (fst u)) (charted us) @ [silver_average (fst u)])"
      using snoc by (intro push_point_window) simp_all
    from False g s show ?thesis
      by (simp add: priceUpdates_snoc chart_of_handlePriceUpdate charted_def)
  qed
qed

text \<open>
  C6. After any run of price updates, starting from the constructor's empty series, each
  series has at most 60 entries and holds the last 60 points appended, in the order of
  their arrival: an append beyond the cap drops the oldest entry and nothing else.
\<close>

theorem chart_series_sliding_window:
  "length (timestamps (chart_gold (priceUpdates client_start us))) \<le> 60
   \<and> length (prices (chart_gold (priceUpdates client_start us))) \<le> 60
   \<and> length (timestamps (chart_silver (priceUpdates client_start us))) \<le> 60
   \<and> length (prices (chart_silver (priceUpdates client_start us))) \<le> 60
   \<and> timestamps (chart_gold (priceUpdates client_start us)) = last_points 60 (map snd (charted us))
   \<and> prices (chart_gold (priceUpdates client_start us))
       = last_points 60 (map (\<lambda>u. gold_average (fst u)) (charted us))
   \<and> timestamps (chart_silver (priceUpdates client_start us)) = last_points 60 (map snd (charted us))
   \<and> prices (chart_silver (priceUpdates client_start us))
       = last_points 60 (map (\<lambda>u. silver_average (fst u)) (charted us))"
  using chart_invariant[of us] by (simp add: length_last_points)

lemma charted_sample:
  "charted (replicate 60 (snapshot_A, ''t'') @ [(snapshot_B, ''u'')])
     = replicate 60 (snapshot_A, ''t'') @ [(snapshot_B, ''u'')]"
  by (simp add: charted_def snapshot_A_def snapshot_B_def)

lemma sample_averages:
  "gold_average snapshot_A = 107610" "gold_average snapshot_B = 108500"
  "silver_average snapshot_A = 126480" "silver_average snapshot_B = 126480"
  by (simp_all add: gold_average_def silver_average_def average_def Math_round_def
      snapshot_A_def snapshot_B_def mumbai_bundle_def)

theorem chart_series_sliding_window_witness:
  "timestamps (chart_gold (priceUpdates client_start
       (replicate 60 (snapshot_A, ''t'') @ [(snapshot_B, ''u'')]))) = replicate 59 ''t'' @ [''u'']
   \<and> prices (chart_gold (priceUpdates client_start
       (replicate 60 (snapshot_A, ''t'') @ [(snapshot_B, ''u'')]))) = replicate 59 107610 @ [108500]
   \<and> prices (chart_silver (priceUpdates client_start
       (replicate 60 (snapshot_A, ''t'') @ [(snapshot_B, ''u'')]))) = replicate 60 126480"
  using chart_series_sliding_window[of "replicate 60 (snapshot_A, ''t'') @ [(snapshot_B, ''u'')]"]
  by (simp add: charted_sample last_points_def sample_averages replicate_append_same)


section \<open>Properties of the filters and the price grid\<close>

lemma length_insert_by: "length (insert_by le x xs) = Suc (length xs)"
  by (induction xs) simp_all

lemma length_sort_by_name: "length (sort_by_name le xs) = length xs"
  unfolding sort_by_name_def by (induction xs) (simp_all add: length_insert_by)

lemma applyFilters_filtered:
  "filteredData (fst (applyFilters le f st))
     = filter (passes (cityFilter f) (toLowerCase (searchInput f))) (allPrices st)"
  by (simp add: applyFilters_def Let_def)

lemma no_match_renders_every_city:
  assumes "filter (passes (cityFilter f) (toLowerCase (searchInput f))) (allPrices st) = []"
    and "allPrices st \<noteq> []"
  shows "\<exists>cards. snd (applyFilters le f st) = Cards cards \<and> length cards = length (allPrices st)"
  using assms by (simp add: applyFilters_def Let_def renderPriceGrid_def length_sort_by_name)

text \<open>
  C9. \<open>applyFilters\<close> keeps exactly the entries that pass the city and the search filter,
  but \<open>renderPriceGrid\<close> takes the whole table whenever the filtered one is empty: with Mumbai
  as the only city and the search text \<open>zzz\<close>, which no city matches, the filtered view is
  empty and the grid still shows the card of Mumbai, not the notice that no city was found.
\<close>

theorem empty_filter_result_renders_all:
  "filteredData (fst (applyFilters le no_match (initialData [] snapshot_A client_start))) = []
   \<and> snd (applyFilters le no_match (initialData [] snapshot_A client_start))
     = Cards [\<lparr>card_city = \<lparr>city_id = ''mumbai'', city_name = ''Mumbai'', city_state = ''Maharashtra''\<rparr>,
               card_time = 0,
               card_gold = Some [(''24k'', 107610, 0), (''22k'', 98634, 0), (''18k'', 80682, 0)],
               card_silver = Some [(''925'', 116892, 0), (''999'', 126480, 0)]\<rparr>]"
  by code_simp


section \<open>Properties of the HTTP read of one city\<close>

lemma unknown_city_404:
  assumes "map_of (currentPrices st) cityId = None" "cityId \<notin> set Object_prototype"
  shows "api_prices_cityId st cityId = (NotFound404, st)"
  using assms by (simp add: api_prices_cityId_def js_get_def)

lemma known_city_bundle:
  assumes "map_of (currentPrices st) cityId = Some b"
  shows "api_prices_cityId st cityId = (Json200 b, st)"
  using assms by (simp add: api_prices_cityId_def js_get_def)

lemma read_leaves_store: "snd (api_prices_cityId st cityId) = st"
  by (simp add: api_prices_cityId_def split: js_prop.split)

text \<open>
  C8. The handler tests \<^verbatim>\<open>currentPrices[cityId]\<close>, which also answers for the names every
  object inherits: \<open>__proto__\<close> and \<open>constructor\<close> are no cities, yet whatever the store
  holds the read of either is not answered with 404, and on the store after start-up it is
  answered with status 200.
\<close>

theorem prototype_key_is_not_404:
  "''__proto__'' \<notin> set (map city_id METRO_CITIES)
   \<and> ''constructor'' \<notin> set (map city_id METRO_CITIES)
   \<and> fst (api_prices_cityId st ''__proto__'') \<noteq> NotFound404
   \<and> fst (api_prices_cityId st ''constructor'') \<noteq> NotFound404
   \<and> fst (api_prices_cityId server_start ''__proto__'') = Json200_inherited"
  by (simp add: metro_ids api_prices_cityId_def js_get_def Object_prototype_def server_start_def
      split: option.split)


section \<open>Properties of the derivation paths of the server\<close>

lemma Math_round_pos: "1 / 2 \<le> x \<Longrightarrow> 0 < Math_round x"
  unfolding Math_round_def by linarith

lemma variation_bounds: "0.98 \<le> variation c"
  by (simp add: variation_def cityVariations_def)

lemma getCityMultiplier_bounds: "0.985 \<le> getCityMultiplier c"
  by (simp add: getCityMultiplier_def cityMultipliers_def)

lemma scaled_ge:
  fixes x f :: real
  assumes "1 \<le> x" "a \<le> f" "0 \<le> a"
  shows "a \<le> x * f"
proof -
  have "a = 1 * a" by simp
  also have "\<dots> \<le> x * f" using assms by (intro mult_mono) simp_all
  finally show ?thesis .
qed

lemma generateCityPrice_pos:
  assumes "0 < b" "unit_draw r"
  shows "0 < generateCityPrice b c r"
proof -
  have b: "(1::real) \<le> of_int b" using assms(1) by simp
  have j: "(0.995::real) \<le> 0.995 + r * 0.01" using assms(2) by (simp add: unit_draw_def)
  have "(0.98::real) * 0.995 \<le> variation c * (0.995 + r * 0.01)"
    using variation_bounds[of c] j by (intro mult_mono) simp_all
  then have "(1/2::real) \<le> variation c * (0.995 + r * 0.01)" by simp
  from scaled_ge[OF b this] have "1 / 2 \<le> of_int b * variation c * (0.995 + r * 0.01)"
    by (simp add: mult.assoc)
  then show ?thesis
    unfolding generateCityPrice_def Let_def by (rule Math_round_pos)
qed

lemma walk_pos:
  assumes "0 < p" "unit_draw r" "0 < w" "w \<le> 1"
  shows "0 < Math_round (of_int p * (1 + (r - 0.5) * w))"
proof -
  have b: "(1::real) \<le> of_int p" using assms(1) by simp
  have "- (1/2) \<le> r - 0.5" "r - 0.5 \<le> 1/2" using assms(2) by (simp_all add: unit_draw_def)
  then have "\<bar>r - 0.5\<bar> \<le> 1/2" by linarith
  then have "\<bar>(r - 0.5) * w\<bar> \<le> 1/2 * 1"
    unfolding abs_mult using assms(3,4) by (intro mult_mono) simp_all
  then have "1 / 2 \<le> 1 + (r - 0.5) * w" by linarith
  from scaled_ge[OF b this] show ?thesis by (intro Math_round_pos) simp
qed

lemma live_pos:
  assumes "1 \<le> x" "1 / 2 \<le> a * 0.985" "0 \<le> a"
  shows "0 < Math_round (x * a * getCityMultiplier c)"
proof -
  have "a * 0.985 \<le> a * getCityMultiplier c"
    using getCityMultiplier_bounds[of c] assms(3) by (intro mult_left_mono) simp_all
  with assms(2) have "1 / 2 \<le> a * getCityMultiplier c" by linarith
  from scaled_ge[OF assms(1) this] show ?thesis
    by (intro Math_round_pos) (simp add: mult.assoc)
qed

lemma fold_update_keeps:
  assumes "\<forall>c \<in> set cs. P (f c)" "\<exists>b. map_of cp k = Some b \<and> P b"
  shows "\<exists>b. map_of (fold (\<lambda>c. AList.update (city_id c) (f c)) cs cp) k = Some b \<and> P b"
  using assms
proof (induction cs arbitrary: cp)
  case Nil
  then show ?case by simp
next
  case (Cons c cs)
  have "\<exists>b. map_of (AList.update (city_id c) (f c) cp) k = Some b \<and> P b"
    using Cons.prems by (simp add: update_conv')
  with Cons.IH[of "AList.update (city_id c) (f c) cp"] Cons.prems(1) show ?case by simp
qed

lemma fold_update_all:
  assumes "\<forall>c \<in> set cs. P (f c)"
  shows "\<forall>c \<in> set cs. \<exists>b. map_of (fold (\<lambda>c. AList.update (city_id c) (f c)) cs cp) (city_id c) = Some b \<and> P b"
  using assms
proof (induction cs arbitrary: cp)
  case Nil
  show ?case by simp
next
  case (Cons c cs)
  let ?cp = "AList.update (city_id c) (f c) cp"
  have rest: "\<forall>c \<in> set cs. P (f c)" using Cons.prems by simp
  have "\<exists>b. map_of ?cp (city_id c) = Some b \<and> P b"
    using Cons.prems by (simp add: update_conv')
  from fold_update_keeps[OF rest this] Cons.IH[OF rest, of ?cp] show ?case by simp
qed

lemma all_cities_positive_iff:
  "all_cities_positive cp
     = (\<forall>c \<in> set METRO_CITIES. \<exists>b. map_of cp (city_id c) = Some b \<and> positive_prices b)"
  by (auto simp: all_cities_positive_def list_all_iff split: option.splits)

lemma initCity_positive:
  assumes "positive_base bp" "draws_ok d"
  shows "positive_prices (initCity bp d tm c)"
  using assms
  by (simp add: positive_prices_def positive_base_def draws_ok_def initCity_def generateCityPrice_pos)

lemma simulateCity_positive:
  assumes "positive_prices b" "draws_ok d"
  shows "positive_prices (simulateCity d tm b)"
  using assms
    walk_pos[of "k24 (gold b)" "d_24k d" "0.004"] walk_pos[of "k22 (gold b)" "d_22k d" "0.004"]
    walk_pos[of "k18 (gold b)" "d_18k d" "0.004"] walk_pos[of "s999 (silver b)" "d_999 d" "0.006"]
    walk_pos[of "s925 (silver b)" "d_925 d" "0.006"]
  by (simp add: positive_prices_def draws_ok_def simulateCity_def)

lemma walkCities_invariant:
  assumes "\<forall>c \<in> set cs. city_id c \<in> K"
    and "\<forall>k \<in> K. \<exists>b. map_of cp k = Some b \<and> P b"
    and "\<And>b k. P b \<Longrightarrow> P (simulateCity (dr k) tm b)"
  shows "\<exists>cp'. walkCities dr tm cs cp = Inr cp' \<and> (\<forall>k \<in> K. \<exists>b. map_of cp' k = Some b \<and> P b)"
  using assms(1,2)
proof (induction cs arbitrary: cp)
  case Nil
  then show ?case by simp
next
  case (Cons c cs)
  from Cons.prems obtain b where b: "map_of cp (city_id c) = Some b" "P b" by auto
  let ?cp = "AList.update (city_id c) (simulateCity (dr (city_id c)) tm b) cp"
  have "\<forall>k \<in> K. \<exists>b. map_of ?cp k = Some b \<and> P b"
    using Cons.prems(2) assms(3)[OF b(2)] by (simp add: update_conv')
  moreover have "\<forall>c \<in> set cs. city_id c \<in> K" using Cons.prems(1) by simp
  ultimately show ?case using Cons.IH[of ?cp] b by simp
qed

lemma walkCities_positive:
  assumes "\<forall>c. draws_ok (dr c)" "all_cities_positive cp"
  shows "\<exists>cp'. walkCities dr tm METRO_CITIES cp = Inr cp' \<and> all_cities_positive cp'"
proof -
  have "\<exists>cp'. walkCities dr tm METRO_CITIES cp = Inr cp'
          \<and> (\<forall>k \<in> city_id ` set METRO_CITIES. \<exists>b. map_of cp' k = Some b \<and> positive_prices b)"
    using assms by (intro walkCities_invariant) (auto simp: all_cities_positive_iff simulateCity_positive)
  then show ?thesis by (auto simp: all_cities_positive_iff)
qed

lemma walkCities_complete:
  assumes "store_complete cp"
  shows "\<exists>cp'. walkCities dr tm METRO_CITIES cp = Inr cp' \<and> store_complete cp'"
proof -
  have "\<exists>cp'. walkCities dr tm METRO_CITIES cp = Inr cp'
          \<and> (\<forall>k \<in> city_id ` set METRO_CITIES. \<exists>b. map_of cp' k = Some b \<and> True)"
    using assms by (intro walkCities_invariant) (auto simp: store_complete_def list_all_iff)
  then show ?thesis by (auto simp: store_complete_def list_all_iff)
qed

lemma fallback_gold_positive:
  "0 < k24 (getFallbackGoldPrices c) \<and> 0 < k22 (getFallbackGoldPrices c)
   \<and> 0 < k18 (getFallbackGoldPrices c)"
  using live_pos[of 105200 1 c] live_pos[of 105200 "0.917" c] live_pos[of 105200 "0.750" c]
  by (simp add: getFallbackGoldPrices_def Let_def)

lemma fallback_silver_positive:
  "0 < s999 (getFallbackSilverPrices c) \<and> 0 < s925 (getFallbackSilverPrices c)"
  using live_pos[of 123800 1 c] live_pos[of 123800 "0.925" c]
  by (simp add: getFallbackSilverPrices_def Let_def)

lemma calculateGoldPrices_positive:
  assumes "usable_quote q"
  shows "0 < k24 (calculateGoldPrices q c) \<and> 0 < k22 (calculateGoldPrices q c)
         \<and> 0 < k18 (calculateGoldPrices q c)"
proof (cases q)
  case None
  then show ?thesis using fallback_gold_positive[of c] by (simp add: calculateGoldPrices_def)
next
  case (Some x)
  show ?thesis
  proof (cases "ltp x = 0")
    case True
    with Some show ?thesis using fallback_gold_positive[of c] by (simp add: calculateGoldPrices_def)
  next
    case False
    with assms Some have l: "1 \<le> ltp x" by (simp add: usable_quote_def)
    from live_pos[OF l, of "24 / 23.88" c] live_pos[OF l, of "22 / 23.88" c]
      live_pos[OF l, of "18 / 23.88" c] False Some
    show ?thesis by (simp add: calculateGoldPrices_def Let_def)
  qed
qed

lemma calculateSilverPrices_positive:
  assumes "usable_quote q"
  shows "0 < s999 (calculateSilverPrices q c) \<and> 0 < s925 (calculateSilverPrices q c)"
proof (cases q)
  case None
  then show ?thesis using fallback_silver_positive[of c] by (simp add: calculateSilverPrices_def)
next
  case (Some x)
  show ?thesis
  proof (cases "ltp x = 0")
    case True
    with Some show ?thesis using fallback_silver_positive[of c] by (simp add: calculateSilverPrices_def)
  next
    case False
    with assms Some have l: "1 \<le> ltp x" by (simp add: usable_quote_def)
    from live_pos[OF l, of 1 c] live_pos[OF l, of "0.925" c] False Some
    show ?thesis by (simp add: calculateSilverPrices_def Let_def)
  qed
qed

lemma initializePrices_positive:
  assumes "\<forall>c. draws_ok (dr c)" "positive_base bp"
  shows "all_cities_positive (initializePrices bp dr tm cp)"
  unfolding all_cities_positive_iff initializePrices_def
  using assms by (intro fold_update_all) (simp add: initCity_positive)

lemma convert_positive:
  assumes "usable_quote (mcx_gold m)" "usable_quote (mcx_silver m)"
  shows "all_cities_positive (convertToLocationPrices m METRO_CITIES tm)"
  unfolding all_cities_positive_iff convertToLocationPrices_def
  using calculateGoldPrices_positive[OF assms(1)] calculateSilverPrices_positive[OF assms(2)]
  by (intro fold_update_all) (simp add: positive_prices_def)

lemma shocked_base_positive:
  assumes "positive_base (basePrices st)" "unit_draw r"
  shows "positive_base (basePrices (marketUpdate r dr tm st))"
  using assms
    walk_pos[of "k24 (base_gold (basePrices st))" r "0.02"]
    walk_pos[of "k22 (base_gold (basePrices st))" r "0.02"]
    walk_pos[of "k18 (base_gold (basePrices st))" r "0.02"]
    walk_pos[of "s999 (base_silver (basePrices st))" r "0.02"]
    walk_pos[of "s925 (base_silver (basePrices st))" r "0.02"]
  by (simp add: marketUpdate_def Let_def positive_base_def)

lemma update_fresh: "k \<notin> fst ` set al \<Longrightarrow> AList.update k v al = al @ [(k, v)]"
  by (induction al) auto

lemma fold_update_fresh:
  assumes "distinct (map city_id cs)" "city_id ` set cs \<inter> fst ` set cp = {}"
  shows "fold (\<lambda>c. AList.update (city_id c) (f c)) cs cp = cp @ map (\<lambda>c. (city_id c, f c)) cs"
  using assms
proof (induction cs arbitrary: cp)
  case Nil
  show ?case by simp
next
  case (Cons c cs)
  from Cons.prems have fresh: "city_id c \<notin> fst ` set cp" by auto
  have "city_id ` set cs \<inter> fst ` set (cp @ [(city_id c, f c)]) = {}"
    using Cons.prems by auto
  with Cons.IH[of "cp @ [(city_id c, f c)]"] Cons.prems(1) fresh show ?case
    by (simp add: update_fresh)
qed

lemma distinct_metro: "distinct (map city_id METRO_CITIES)"
  unfolding metro_ids by code_simp

lemma convert_table:
  "convertToLocationPrices m METRO_CITIES tm =
     map (\<lambda>c. (city_id c,
            \<lparr>cityInfo = c,
             gold = calculateGoldPrices (mcx_gold m) (city_id c),
             silver = calculateSilverPrices (mcx_silver m) (city_id c),
             lastUpdated = tm,
             trend_gold = getTrend (pct_or_zero (mcx_gold m)),
             trend_silver = getTrend (pct_or_zero (mcx_silver m)),
             mcxData = Some m\<rparr>)) METRO_CITIES"
  unfolding convertToLocationPrices_def
  using fold_update_fresh[OF distinct_metro, of "[]"] by simp

lemma convert_complete: "store_complete (convertToLocationPrices m METRO_CITIES tm)"
  unfolding store_complete_def list_all_iff convert_table
  by (auto simp: map_of_eq_None_iff image_iff)

lemma convert_lookup_mumbai:
  "map_of (convertToLocationPrices m METRO_CITIES tm) ''mumbai'' =
     Some \<lparr>cityInfo = \<lparr>city_id = ''mumbai'', city_name = ''Mumbai'', city_state = ''Maharashtra''\<rparr>,
           gold = calculateGoldPrices (mcx_gold m) ''mumbai'',
           silver = calculateSilverPrices (mcx_silver m) ''mumbai'',
           lastUpdated = tm,
           trend_gold = getTrend (pct_or_zero (mcx_gold m)),
           trend_silver = getTrend (pct_or_zero (mcx_silver m)),
           mcxData = Some m\<rparr>"
  unfolding convert_table by (simp add: METRO_CITIES_def)

lemma st0_store:
  "currentPrices st0 = convertToLocationPrices (getFallbackData half_fallback 0) METRO_CITIES 0"
  "useMCXData st0" "timers st0 = []" "basePrices st0 = BASE_PRICES"
  by (simp_all add: st0_def initializeApp_def tick0_def fetchLiveData_def has_quote_def
      getFallbackData_def server_start_def Let_def)

lemma st0_complete: "store_complete (currentPrices st0)"
  by (simp add: st0_store convert_complete)

text \<open>
  C1, as amended. For draws in \<open>[0, 1)\<close>, every price of every city is strictly positive
  after the generation from a positive base table (at start-up and after the five-minute
  shock, which keeps the base table positive), after a random-walk tick on positive stored
  prices, and after the conversion of live quotes that are usable.
\<close>

theorem derived_prices_positive:
  assumes "\<forall>c. draws_ok (dr c)"
  shows "(positive_base bp \<longrightarrow> all_cities_positive (initializePrices bp dr tm cp))
       \<and> (positive_base (basePrices st) \<and> unit_draw r \<longrightarrow>
            positive_base (basePrices (marketUpdate r dr tm st))
            \<and> all_cities_positive (currentPrices (marketUpdate r dr tm st)))
       \<and> (all_cities_positive (currentPrices st) \<longrightarrow>
            (case updatePricesSimulated dr tm st of
               Inl e \<Rightarrow> False
             | Inr st' \<Rightarrow> all_cities_positive (currentPrices st')))
       \<and> (usable_quote (mcx_gold m) \<and> usable_quote (mcx_silver m) \<longrightarrow>
            all_cities_positive (convertToLocationPrices m METRO_CITIES tm))"
proof (intro conjI impI)
  assume "positive_base bp"
  with assms show "all_cities_positive (initializePrices bp dr tm cp)"
    by (rule initializePrices_positive)
next
  assume a: "positive_base (basePrices st) \<and> unit_draw r"
  then show b: "positive_base (basePrices (marketUpdate r dr tm st))"
    by (simp add: shocked_base_positive)
  have "currentPrices (marketUpdate r dr tm st)
          = initializePrices (basePrices (marketUpdate r dr tm st)) dr tm (currentPrices st)"
    by (simp add: marketUpdate_def Let_def)
  with initializePrices_positive[OF assms b]
  show "all_cities_positive (currentPrices (marketUpdate r dr tm st))" by simp
next
  assume "all_cities_positive (currentPrices st)"
  from walkCities_positive[OF assms this, of tm]
  show "case updatePricesSimulated dr tm st of
          Inl e \<Rightarrow> False
        | Inr st' \<Rightarrow> all_cities_positive (currentPrices st')"
    by (auto simp: updatePricesSimulated_def)
next
  assume "usable_quote (mcx_gold m) \<and> usable_quote (mcx_silver m)"
  then show "all_cities_positive (convertToLocationPrices m METRO_CITIES tm)"
    by (simp add: convert_positive)
qed

theorem derived_prices_positive_witness:
  "draws_ok half_draws
   \<and> positive_base BASE_PRICES
   \<and> all_cities_positive (initializePrices BASE_PRICES (\<lambda>c. half_draws) 0 [])
   \<and> positive_base (basePrices st0) \<and> unit_draw (1 / 2)
   \<and> positive_base (basePrices (marketUpdate (1 / 2) (\<lambda>c. half_draws) 0 st0))
   \<and> all_cities_positive (currentPrices (marketUpdate (1 / 2) (\<lambda>c. half_draws) 0 st0))
   \<and> all_cities_positive (currentPrices st0)
   \<and> (case updatePricesSimulated (\<lambda>c. half_draws) 0 st0 of
         Inl e \<Rightarrow> False
       | Inr st' \<Rightarrow> all_cities_positive (currentPrices st'))
   \<and> usable_quote (mcx_gold (getFallbackData half_fallback 0))
   \<and> usable_quote (mcx_silver (getFallbackData half_fallback 0))
   \<and> all_cities_positive (convertToLocationPrices (getFallbackData half_fallback 0) METRO_CITIES 0)"
proof -
  have d: "\<forall>c. draws_ok ((\<lambda>c. half_draws) c)"
    by (simp add: draws_ok_def half_draws_def unit_draw_def)
  have b: "positive_base BASE_PRICES" by (simp add: positive_base_def BASE_PRICES_def)
  have u: "unit_draw (1 / 2)" by (simp add: unit_draw_def)
  have q: "usable_quote (mcx_gold (getFallbackData half_fallback 0))"
    "usable_quote (mcx_silver (getFallbackData half_fallback 0))"
    by (simp_all add: usable_quote_def getFallbackData_def half_fallback_def)
  note t = derived_prices_positive[where dr = "\<lambda>c. half_draws" and bp = BASE_PRICES and tm = 0
      and cp = "[]" and st = st0 and r = "1 / 2" and m = "getFallbackData half_fallback 0", OF d]
  from t q have p: "all_cities_positive (currentPrices st0)" by (simp add: st0_store)
  from t b u q p d show ?thesis by (simp add: st0_store)
qed

text \<open>
  C1 as stated fails on the live path: a quote with the positive price \<open>1/4\<close> passes the
  check of \<open>calculateGoldPrices\<close> and the 24k price stored for Mumbai is \<open>0\<close>.
\<close>

theorem tiny_quote_gives_zero_price:
  "map_option ltp (mcx_gold (fetchLiveData (fetch tick_tiny) (fallback tick_tiny) (now tick_tiny)))
     = Some (1 / 4)
   \<and> (0 :: real) < 1 / 4
   \<and> useMCXData st0
   \<and> gold24_of (updatePrices tick_tiny st0) ''mumbai'' = Some 0"
proof -
  have g: "includes_str (toUpperCase ''GOLD'') ''GOLD''" "\<not> includes_str (toUpperCase ''GOLD'') ''SILVER''"
    by code_simp+
  have m: "fetchLiveData (fetch tick_tiny) (fallback tick_tiny) (now tick_tiny)
             = \<lparr>mcx_gold = Some (item_quote tiny_gold 10), mcx_silver = None\<rparr>"
    using g by (simp add: tick_tiny_def fetchLiveData_def parseMCXData_def parseItem_def tiny_gold_def Let_def)
  have l: "ltp (item_quote tiny_gold 10) = 1 / 4"
    by (simp add: item_quote_def tiny_gold_def or_zero_def)
  have u: "updatePrices tick_tiny st0 =
       Inr (st0\<lparr>currentPrices := convertToLocationPrices \<lparr>mcx_gold = Some (item_quote tiny_gold 10), mcx_silver = None\<rparr> METRO_CITIES 10,
               emitted := emitted st0 @ [convertToLocationPrices \<lparr>mcx_gold = Some (item_quote tiny_gold 10), mcx_silver = None\<rparr> METRO_CITIES 10]\<rparr>)"
    using m st0_store(2) by (simp add: updatePrices_def updatePricesFromMCX_def has_quote_def Let_def tick_tiny_def)
  have "gold24_of (updatePrices tick_tiny st0) ''mumbai'' = Some 0"
    unfolding u
    by (simp add: gold24_of_def convert_lookup_mumbai calculateGoldPrices_def l
        getCityMultiplier_def cityMultipliers_def Math_round_def Let_def)
  with m l st0_store(2) show ?thesis by simp
qed


section \<open>Properties of the update scheduler\<close>

lemma fetchLiveData_failed:
  assumes "fetch_failed outcome"
  shows "fetchLiveData outcome f tm = getFallbackData f tm"
proof (cases outcome)
  case (Parsed data)
  with assms show ?thesis
    by (cases data) (simp_all add: fetchLiveData_def fetch_failed_def parseMCXData_def)
qed (simp_all add: fetchLiveData_def)

lemma updatePrices_fetch_failed:
  assumes "useMCXData st" "fetch_failed (fetch t)"
  shows "updatePrices t st =
           Inr (st\<lparr>currentPrices := convertToLocationPrices (getFallbackData (fallback t) (now t)) METRO_CITIES (now t),
                   emitted := emitted st @ [convertToLocationPrices (getFallbackData (fallback t) (now t)) METRO_CITIES (now t)]\<rparr>)"
proof -
  have "has_quote (getFallbackData (fallback t) (now t))"
    by (simp add: has_quote_def getFallbackData_def)
  with assms show ?thesis
    by (simp add: updatePrices_def updatePricesFromMCX_def fetchLiveData_failed Let_def)
qed








text \<open>
  The path the cooldown is written on: with the live source enabled and every city in the
  store, a payload with neither a gold nor a silver quote makes the tick disable the live
  source, do the random walk and set a timer of 5 minutes (300000 ms) whose callback enables
  the source again; until then a tick makes no request.
\<close>

lemma no_quote_cools_down:
  assumes "useMCXData st" "store_complete (currentPrices st)"
    and "fetch t = Parsed data" "\<not> has_quote (parseMCXData data (fallback t) (now t))"
  shows "case updatePrices t st of
           Inl e \<Rightarrow> False
         | Inr st' \<Rightarrow>
             \<not> useMCXData st' \<and> timers st' = timers st @ [300000]
             \<and> updatePricesSimulated (draws t) (now t) (st\<lparr>useMCXData := False\<rparr>)
                 = Inr (st'\<lparr>timers := timers st\<rparr>)
             \<and> updatePrices t2 st' = updatePricesSimulated (draws t2) (now t2) st'
             \<and> useMCXData (reenableMCX st')"
proof -
  from walkCities_complete[OF assms(2), of "draws t" "now t"] obtain cp' where
    cp': "walkCities (draws t) (now t) METRO_CITIES (currentPrices st) = Inr cp'" by blast
  let ?s1 = "st\<lparr>useMCXData := False, currentPrices := cp', emitted := emitted st @ [cp']\<rparr>"
  have sim: "updatePricesSimulated (draws t) (now t) (st\<lparr>useMCXData := False\<rparr>) = Inr ?s1"
    using cp' by (simp add: updatePricesSimulated_def)
  have u: "updatePrices t st = Inr (?s1\<lparr>timers := timers st @ [300000]\<rparr>)"
    using assms(1,3,4) sim
    by (simp add: updatePrices_def updatePricesFromMCX_def fetchLiveData_def Let_def)
  show ?thesis
    unfolding u using sim by (simp add: updatePrices_def reenableMCX_def)
qed

text \<open>
  C4. A failed request does not start the cooldown. After a start-up and a tick whose
  requests are both rejected, the live source is still enabled and no timer is pending, so
  the next tick requests again: \<open>fetchLiveData\<close> has turned the failure into its fallback
  quote before \<open>updatePricesFromMCX\<close> could catch it. On the same store a payload without
  quotes does disable the live source and sets the timer of 300000 ms.
\<close>

theorem failed_fetch_keeps_live_source:
  "useMCXData st0 \<and> fetch_failed (fetch tick1)
   \<and> (case updatePrices tick1 st0 of
         Inl e \<Rightarrow> False
       | Inr st' \<Rightarrow> useMCXData st' \<and> timers st' = []
           \<and> updatePrices tick1 st' = updatePricesFromMCX tick1 st')
   \<and> (case updatePrices tick_empty st0 of
         Inl e \<Rightarrow> False
       | Inr st' \<Rightarrow> \<not> useMCXData st' \<and> timers st' = [300000])"
proof -
  have f: "fetch_failed (fetch tick1)" by (simp add: tick1_def fetch_failed_def)
  have e: "fetch tick_empty = Parsed (Items [])" by (simp add: tick_empty_def)
  have n: "\<not> has_quote (parseMCXData (Items []) (fallback tick_empty) (now tick_empty))"
    by (simp add: has_quote_def parseMCXData_def)
  have failed: "case updatePrices tick1 st0 of
         Inl e \<Rightarrow> False
       | Inr st' \<Rightarrow> useMCXData st' \<and> timers st' = []
           \<and> updatePrices tick1 st' = updatePricesFromMCX tick1 st'"
    unfolding updatePrices_fetch_failed[OF st0_store(2) f]
    by (simp add: st0_store updatePrices_def)
  have empty: "case updatePrices tick_empty st0 of
         Inl e \<Rightarrow> False
       | Inr st' \<Rightarrow> \<not> useMCXData st' \<and> timers st' = [300000]"
    using no_quote_cools_down[OF st0_store(2) st0_complete e n, of tick1]
    by (auto simp: st0_store split: sum.splits)
  from f st0_store(2) failed empty show ?thesis by blast
qed


end
